theory Spec2Isabelle
  imports Complex_Main "HOL-Library.AList" "HOL-Library.Char_ord" "HOL-Library.List_Lexorder"
begin

section \<open>Exceptions\<close>

text \<open>
  A call returns a value or is left by an exception: a result is a sum, with the
  exception on the left. The classes are those that the sources catch and those that the
  library calls of the sources raise; \<open>ReError\<close> is \<^verbatim>\<open>re.error\<close>, and \<open>OtherError\<close> stands
  for an exception of any class that is none of these and no subclass of them.
  \<^verbatim>\<open>JSONDecodeError\<close> and \<^verbatim>\<open>UnicodeDecodeError\<close> are subclasses of \<^verbatim>\<open>ValueError\<close>;
  \<^verbatim>\<open>OSError\<close> stands for itself and its subclasses; no other class here is a subclass
  of another.
\<close>

datatype exn =
  ReError | OverflowError | RecursionError | IndexError
  | OSError | ValueError | JSONDecodeError | UnicodeDecodeError | TypeError | OtherError

text \<open>Whether \<^verbatim>\<open>except cls\<close> catches the exception \<open>e\<close>.\<close>

definition isinstance :: "exn \<Rightarrow> exn \<Rightarrow> bool" where
  "isinstance e cls =
     (e = cls \<or> (cls = ValueError \<and> (e = JSONDecodeError \<or> e = UnicodeDecodeError)))"

section \<open>Scanned items (schema.py)\<close>

text \<open>
  Strings are lists of 8-bit characters (code points 0 to 255), ordered as Python orders
  strings: by code point, a proper prefix first. Among these characters the digits of
  \<^verbatim>\<open>\d\<close> are \<^verbatim>\<open>0\<close> to \<^verbatim>\<open>9\<close>. The backslash is written by its code point.
\<close>

abbreviation backslash :: char where
  "backslash \<equiv> CHR 0x5C"

datatype Status = MISSING | FOUND | EXPRESSION

datatype ParmType = FILE | IMAGE | GEOMETRY | DIRECTORY | STRING

record NodeType =
  name :: string
  category :: string

record Path =
  path_raw :: string
  path_expanded :: string

record Preview =
  preview_raw :: string
  preview_html :: string

record Item =
  parm_name :: string
  parm_type :: ParmType
  node_path :: string
  node_type :: NodeType
  path :: Path
  preview :: Preview
  status :: Status

text \<open>\<^verbatim>\<open>str.replace(old, new)\<close> for one-character \<open>old\<close> and \<open>new\<close>.\<close>

definition replace_char :: "char \<Rightarrow> char \<Rightarrow> string \<Rightarrow> string" where
  "replace_char old new s = map (\<lambda>c. if c = old then new else c) s"

text \<open>\<^verbatim>\<open>Item.set_preview\<close>: the item is mutated in place; the model returns the new item.\<close>

definition set_preview :: "string \<Rightarrow> Item \<Rightarrow> Item" where
  "set_preview p item =
     (if p = path_raw (path item)
      then item\<lparr>preview := (preview item)\<lparr>preview_raw := []\<rparr>\<rparr>
      else item\<lparr>preview := (preview item)\<lparr>preview_raw := replace_char backslash (CHR ''/'') p\<rparr>\<rparr>)"

section \<open>Substitution with the fixed patterns of the sources\<close>

text \<open>
  \<^verbatim>\<open>re.sub(pattern, repl, s)\<close> for a pattern that matches no empty string: scan from the
  left; where the pattern matches, emit the replacement of the matched text and go on
  behind the match, otherwise copy one character. A pattern is given by its matcher,
  which returns the length of its match at the start of a string.
\<close>

function re_sub :: "(string \<Rightarrow> nat option) \<Rightarrow> (string \<Rightarrow> string) \<Rightarrow> string \<Rightarrow> string" where
  "re_sub m r [] = []"
| "re_sub m r (c # cs) =
     (case m (c # cs) of
        Some (Suc k) \<Rightarrow> r (take (Suc k) (c # cs)) @ re_sub m r (drop k cs)
      | _ \<Rightarrow> c # re_sub m r cs)"
  by pat_completeness auto
termination
  by (relation "measure (\<lambda>(m, r, s). length s)") auto

text \<open>\<^verbatim>\<open>pattern.search(s)\<close>: the text of the leftmost match, if any.\<close>

fun re_search :: "(string \<Rightarrow> nat option) \<Rightarrow> string \<Rightarrow> string option" where
  "re_search m [] = None"
| "re_search m (c # cs) =
     (case m (c # cs) of
        Some k \<Rightarrow> Some (take k (c # cs))
      | None \<Rightarrow> re_search m cs)"

definition is_digit :: "char \<Rightarrow> bool" where
  "is_digit c = (c \<in> set ''0123456789'')"

text \<open>A literal pattern such as \<^verbatim>\<open><UDIM>\<close>.\<close>

definition m_lit :: "string \<Rightarrow> string \<Rightarrow> nat option" where
  "m_lit needle s = (if take (length needle) s = needle then Some (length needle) else None)"

text \<open>\<^verbatim>\<open>%0(\d)d\<close> and \<^verbatim>\<open>%0\dd\<close>.\<close>

fun m_percent :: "string \<Rightarrow> nat option" where
  "m_percent (p # z # d # e # cs) =
     (if p = CHR ''%'' \<and> z = CHR ''0'' \<and> is_digit d \<and> e = CHR ''d'' then Some 4 else None)"
| "m_percent _ = None"

text \<open>\<^verbatim>\<open>#+\<close>: the whole run of hashes.\<close>

definition m_hashes :: "string \<Rightarrow> nat option" where
  "m_hashes s =
     (let n = length (takeWhile (\<lambda>c. c = CHR ''#'') s) in if n = 0 then None else Some n)"

text \<open>\<^verbatim>\<open>\$F(\d)\<close>.\<close>

fun m_frame_digit :: "string \<Rightarrow> nat option" where
  "m_frame_digit (a # b # d # cs) =
     (if a = CHR ''$'' \<and> b = CHR ''F'' \<and> is_digit d then Some 3 else None)"
| "m_frame_digit _ = None"

text \<open>\<^verbatim>\<open>\$F\<close>.\<close>

definition m_frame :: "string \<Rightarrow> nat option" where
  "m_frame s = m_lit ''$F'' s"


text \<open>Decimal numerals, as \<^verbatim>\<open>str(n)\<close> and \<^verbatim>\<open>int(s)\<close> on digit strings.\<close>

definition digit_char :: "nat \<Rightarrow> char" where
  "digit_char n = ''0123456789'' ! (n mod 10)"

function str_nat :: "nat \<Rightarrow> string" where
  "str_nat n = (if n < 10 then [digit_char n] else str_nat (n div 10) @ [digit_char n])"
  by pat_completeness auto
termination
  by (relation "measure (\<lambda>n. n)") auto

definition digit_val :: "char \<Rightarrow> nat" where
  "digit_val c = of_char c - of_char (CHR ''0'')"

definition nat_of_digits :: "string \<Rightarrow> nat" where
  "nat_of_digits s = foldl (\<lambda>a c. 10 * a + digit_val c) 0 s"

text \<open>The regular-expression text \<^verbatim>\<open>(\d{n})\<close> for a count given as text.\<close>

definition digits_group :: "string \<Rightarrow> string" where
  "digits_group n = ''('' @ [backslash] @ ''d{'' @ n @ ''})''"

definition udim_group :: string where
  "udim_group = ''(1'' @ [backslash] @ ''d{3})''"

definition frames_group :: string where
  "frames_group = ''('' @ [backslash] @ ''d+)''"

section \<open>find_files (utils.py)\<close>

text \<open>
  The six substitutions that build the regular expression. The second pattern is
  written \<^verbatim>\<open>%(UDIM)d\<close> in the source: its parentheses are a group, so it matches the
  text \<^verbatim>\<open>%UDIMd\<close>.
\<close>

definition re_pattern :: "string \<Rightarrow> string" where
  "re_pattern p =
     (let s1 = re_sub (m_lit ''<UDIM>'') (\<lambda>m. udim_group) p;
          s2 = re_sub (m_lit ''%UDIMd'') (\<lambda>m. udim_group) s1;
          s3 = re_sub m_percent (\<lambda>m. digits_group [m ! 2]) s2;
          s4 = re_sub m_hashes (\<lambda>m. digits_group (str_nat (length m))) s3;
          s5 = re_sub m_frame_digit (\<lambda>m. digits_group [m ! 2]) s4
      in re_sub m_frame (\<lambda>m. frames_group) s5)"




section \<open>The host's string expansion (houdini/host.py)\<close>

text \<open>
  \<^verbatim>\<open>HoudiniHost.expand_string\<close> with \<^verbatim>\<open>expand_frame=False\<close>: frame tokens are hidden
  from the host's own expansion \<^verbatim>\<open>hou.text.expandString\<close>, which is a parameter, and
  put back afterwards.
\<close>

definition expand_string :: "(string \<Rightarrow> string) \<Rightarrow> string \<Rightarrow> string" where
  "expand_string hou_expand text =
     (let safe = re_sub m_frame (\<lambda>m. ''<F>'') text
      in re_sub (m_lit ''<F>'') (\<lambda>m. ''$F'') (hou_expand safe))"

section \<open>The version plugin (plugins/version.py)\<close>

text \<open>\<^verbatim>\<open>collection_pattern = \$F{?\d*}?|<UDIM>\<close>.\<close>

fun m_collection :: "string \<Rightarrow> nat option" where
  "m_collection (a # b # cs) =
     (if a = CHR ''$'' \<and> b = CHR ''F'' then
        (let n1 = (if take 1 cs = ''{'' then 1 else 0);
             n2 = length (takeWhile is_digit (drop n1 cs));
             n3 = (if take 1 (drop (n1 + n2) cs) = ''}'' then 1 else 0)
         in Some (2 + n1 + n2 + n3))
      else m_lit ''<UDIM>'' (a # b # cs))"
| "m_collection _ = None"

text \<open>
  \<^verbatim>\<open>version_pattern = ([\\/._]v)(\d+)\<close>: group 1 is the first two characters of a
  match, group 2 the digits behind them.
\<close>

fun m_version :: "string \<Rightarrow> nat option" where
  "m_version (a # b # cs) =
     (let n = length (takeWhile is_digit cs)
      in if a \<in> set [backslash, CHR ''/'', CHR ''.'', CHR ''_''] \<and> b = CHR ''v'' \<and> 0 < n
         then Some (2 + n) else None)"
| "m_version _ = None"

text \<open>\<^verbatim>\<open>f'{number:0{width}d}'\<close> for a number that is not negative.\<close>

definition zero_pad :: "nat \<Rightarrow> nat \<Rightarrow> string" where
  "zero_pad width number =
     replicate (width - length (str_nat number)) (CHR ''0'') @ str_nat number"

record host_env =
  hou_expand :: "string \<Rightarrow> string"
  glob_glob :: "string \<Rightarrow> string list"

text \<open>
  A Python dictionary keeps its keys in insertion order and a second assignment to a key
  keeps its place: an association list under \<^const>\<open>AList.update\<close>.
\<close>

type_synonym versions = "(int \<times> string) list"

definition version_path :: "string \<Rightarrow> nat \<Rightarrow> string" where
  "version_path p number =
     re_sub m_version (\<lambda>m. take 2 m @ zero_pad (length m - 2) number) p"

definition add_version :: "string \<Rightarrow> versions \<Rightarrow> string \<Rightarrow> versions" where
  "add_version p vs file =
     (case re_search m_version file of
        None \<Rightarrow> vs
      | Some m \<Rightarrow>
          (let number = nat_of_digits (drop 2 m)
           in AList.update (int number) (version_path p number) vs))"

text \<open>The two substitutions that turn the expanded path into a glob pattern.\<close>

definition version_glob_pattern :: "string \<Rightarrow> string" where
  "version_glob_pattern absolute_path =
     (let g1 = re_sub m_collection (\<lambda>m. ''*'') absolute_path
      in re_sub m_version (\<lambda>m. take 2 m @ ''*'') g1)"

text \<open>The body of \<^verbatim>\<open>_get_versions\<close>, without its cache.\<close>

definition get_versions_body :: "host_env \<Rightarrow> string \<Rightarrow> versions" where
  "get_versions_body env p =
     (let absolute_path = expand_string (hou_expand env) p;
          files = glob_glob env (version_glob_pattern absolute_path)
      in foldl (add_version p) [] files)"

text \<open>
  \<^verbatim>\<open>_get_versions\<close> is decorated with \<^verbatim>\<open>@lru_cache\<close> (128 entries by default): the
  cache is program state, kept here as the list of its entries, the most recently used
  first. The plugin manager holds the only instance of the plugin, so the path is the key.
\<close>

type_synonym versions_cache = "(string \<times> versions) list"

definition lru_maxsize :: nat where
  "lru_maxsize = 128"

definition get_versions :: "host_env \<Rightarrow> versions_cache \<Rightarrow> string \<Rightarrow> versions \<times> versions_cache" where
  "get_versions env cache p =
     (case map_of cache p of
        Some vs \<Rightarrow> (vs, (p, vs) # filter (\<lambda>e. fst e \<noteq> p) cache)
      | None \<Rightarrow>
          (let vs = get_versions_body env p
           in (vs, take lru_maxsize ((p, vs) # cache))))"

text \<open>
  The plugin's values in \<^verbatim>\<open>kwargs\<close>: the entries of the form, each of which may be
  absent; \<open>None\<close> for the whole record when \<^verbatim>\<open>kwargs\<close> has no entry for the plugin.
\<close>

record version_values =
  v_mode :: "string option"
  v_version :: "int option"

definition dict_get :: "'a option \<Rightarrow> 'a \<Rightarrow> 'a" where
  "dict_get entry dflt = (case entry of None \<Rightarrow> dflt | Some v \<Rightarrow> v)"

definition version_select :: "string \<Rightarrow> int \<Rightarrow> versions \<Rightarrow> string" where
  "version_select mode version vs =
     (if mode = ''Latest'' then last (sort (map snd vs))
      else if mode = ''Earliest'' then hd (sort (map snd vs))
      else dict_get (map_of vs version) [])"

definition version_preview_item ::
  "host_env \<Rightarrow> string \<Rightarrow> int \<Rightarrow> versions_cache \<Rightarrow> Item \<Rightarrow> Item \<times> versions_cache" where
  "version_preview_item env mode version cache item =
     (if status item = EXPRESSION then (item, cache)
      else
        (let (vs, cache') = get_versions env cache (path_raw (path item))
         in if vs = [] then (item, cache')
            else (set_preview (version_select mode version vs) item, cache')))"

fun version_preview_loop ::
  "host_env \<Rightarrow> string \<Rightarrow> int \<Rightarrow> versions_cache \<Rightarrow> Item list \<Rightarrow> Item list \<times> versions_cache" where
  "version_preview_loop env mode version cache [] = ([], cache)"
| "version_preview_loop env mode version cache (item # items) =
     (let (item', cache') = version_preview_item env mode version cache item;
          (items', cache'') = version_preview_loop env mode version cache' items
      in (item' # items', cache''))"

definition version_preview ::
  "host_env \<Rightarrow> versions_cache \<Rightarrow> Item list \<Rightarrow> version_values option \<Rightarrow> Item list \<times> versions_cache" where
  "version_preview env cache items kwargs =
     (let vals = dict_get kwargs \<lparr>v_mode = None, v_version = None\<rparr>;
          mode = dict_get (v_mode vals) [];
          version = dict_get (v_version vals) 1
      in version_preview_loop env mode version cache items)"

section \<open>The loop over the items of a preview\<close>

text \<open>
  Each \<^verbatim>\<open>preview\<close> runs through the items and mutates them in place. \<open>step\<close> gives the
  item after its turn, or the exception that leaves the loop at the item: then the items
  before it keep what they got and the others stay as they were. The result is the
  exception that leaves the loop, if any, and the items afterwards.
\<close>

fun preview_loop :: "(Item \<Rightarrow> exn + Item) \<Rightarrow> Item list \<Rightarrow> exn option \<times> Item list" where
  "preview_loop step [] = (None, [])"
| "preview_loop step (item # items) =
     (case step item of
        Inl e \<Rightarrow> (Some e, item # items)
      | Inr item' \<Rightarrow>
          (let (raised, items') = preview_loop step items in (raised, item' # items')))"

section \<open>The replace plugin (plugins/replace.py)\<close>

text \<open>
  What the plugin takes from the standard library: \<^verbatim>\<open>re.compile\<close> with or without
  \<^verbatim>\<open>re.IGNORECASE\<close> and \<^verbatim>\<open>pattern.sub\<close>, each of which returns or raises
  (\<^verbatim>\<open>pattern.sub\<close> raises \<^verbatim>\<open>re.error\<close> for a bad escape in the replacement and
  \<^verbatim>\<open>IndexError\<close> for an unknown group name), \<^verbatim>\<open>fnmatch.translate\<close>, and
  \<^verbatim>\<open>str.encode('unicode_escape').decode('ascii')\<close>.
\<close>

record 'r replace_env =
  compile_flags :: "bool \<Rightarrow> string \<Rightarrow> exn + 'r"
  pattern_sub :: "'r \<Rightarrow> string \<Rightarrow> string \<Rightarrow> exn + string"
  fnmatch_translate :: "string \<Rightarrow> string"
  unicode_escape :: "string \<Rightarrow> string"

record replace_values =
  r_search :: "string option"
  r_replace :: "string option"
  r_regex :: "bool option"
  r_match_case :: "bool option"

text \<open>
  The body of the first \<^verbatim>\<open>try\<close> block: the compiled pattern and the replacement text,
  or the exception raised. The first argument of \<open>compile_flags\<close> says whether
  \<^verbatim>\<open>re.IGNORECASE\<close> is set.
\<close>

definition replace_compile ::
  "'r replace_env \<Rightarrow> string \<Rightarrow> string \<Rightarrow> bool \<Rightarrow> bool \<Rightarrow> exn + ('r \<times> string)" where
  "replace_compile env search replace regex match_case =
     (let ignorecase = \<not> match_case
      in if regex then
           (case compile_flags env ignorecase search of
              Inl e \<Rightarrow> Inl e
            | Inr pattern \<Rightarrow> Inr (pattern, replace))
         else
           (let pattern_str = butlast (butlast (fnmatch_translate env search))
            in case compile_flags env ignorecase pattern_str of
                 Inl e \<Rightarrow> Inl e
               | Inr pattern \<Rightarrow> Inr (pattern, unicode_escape env replace)))"

text \<open>
  The body of the loop: \<^verbatim>\<open>re.error\<close> from the substitution is caught and the item
  skipped, any other exception leaves the loop.
\<close>

definition replace_step :: "'r replace_env \<Rightarrow> 'r \<Rightarrow> string \<Rightarrow> Item \<Rightarrow> exn + Item" where
  "replace_step env pattern replace item =
     (case pattern_sub env pattern replace (path_raw (path item)) of
        Inl e \<Rightarrow> if isinstance e ReError then Inr item else Inl e
      | Inr p \<Rightarrow> Inr (set_preview p item))"

text \<open>
  \<^verbatim>\<open>ReplacePlugin.preview\<close>: the exception that leaves the call, if any, and the items
  afterwards.
\<close>

definition replace_preview ::
  "'r replace_env \<Rightarrow> Item list \<Rightarrow> replace_values option \<Rightarrow> exn option \<times> Item list" where
  "replace_preview env items kwargs =
     (let plugin_values =
            dict_get kwargs \<lparr>r_search = None, r_replace = None, r_regex = None, r_match_case = None\<rparr>;
          search = dict_get (r_search plugin_values) [];
          replace = dict_get (r_replace plugin_values) [];
          regex = dict_get (r_regex plugin_values) False;
          match_case = dict_get (r_match_case plugin_values) False
      in if search = [] then (None, items)
         else case replace_compile env search replace regex match_case of
                Inl e \<Rightarrow> if isinstance e ReError then (None, items) else (Some e, items)
              | Inr (pattern, replace') \<Rightarrow> preview_loop (replace_step env pattern replace') items)"

section \<open>The paths of the operating system\<close>

text \<open>
  What the other plugins take from \<^verbatim>\<open>os\<close> and \<^verbatim>\<open>fnmatch\<close>. \<^verbatim>\<open>os.path.basename\<close>,
  \<^verbatim>\<open>normpath\<close> and \<^verbatim>\<open>join\<close> are functions of their strings; \<^verbatim>\<open>os.path.relpath\<close>
  asks for the working directory and raises (\<^verbatim>\<open>ValueError\<close> for paths on different
  drives, \<^verbatim>\<open>OSError\<close> when there is no working directory); \<^verbatim>\<open>os.walk\<close> lists a tree
  as triples of a directory, its subdirectories and its files.
\<close>

record os_env =
  path_basename :: "string \<Rightarrow> string"
  path_normpath :: "string \<Rightarrow> string"
  path_join :: "string \<Rightarrow> string \<Rightarrow> string"
  path_relpath :: "string \<Rightarrow> string \<Rightarrow> exn + string"
  os_walk :: "string \<Rightarrow> (string \<times> string list \<times> string list) list"
  fnmatch_filter :: "string list \<Rightarrow> string \<Rightarrow> string list"

text \<open>\<^verbatim>\<open>sub in s\<close> for strings.\<close>

fun contains :: "string \<Rightarrow> string \<Rightarrow> bool" where
  "contains sub [] = (sub = [])"
| "contains sub (c # cs) = (take (length sub) (c # cs) = sub \<or> contains sub cs)"

section \<open>The set-directory plugin (plugins/set_directory.py)\<close>

record set_directory_values =
  d_directory :: "string option"

definition set_directory_step :: "os_env \<Rightarrow> string \<Rightarrow> Item \<Rightarrow> exn + Item" where
  "set_directory_step os directory item =
     (if status item = EXPRESSION then Inr item
      else
        (let filename = path_basename os (path_normpath os (path_raw (path item)));
             p = path_join os directory filename
         in Inr (set_preview p item)))"

definition set_directory_preview ::
  "os_env \<Rightarrow> Item list \<Rightarrow> set_directory_values option \<Rightarrow> exn option \<times> Item list" where
  "set_directory_preview os items kwargs =
     (let directory = dict_get (d_directory (dict_get kwargs \<lparr>d_directory = None\<rparr>)) []
      in if directory = [] then (None, items)
         else preview_loop (set_directory_step os directory) items)"

section \<open>The move plugin (plugins/mv.py)\<close>

record move_values =
  m_destination :: "string option"
  m_relative_root :: "string option"
  m_relative_root_enabled :: "bool option"

text \<open>
  The tail of the new path: the base name, or the path relative to the root when that is
  asked for and holds no \<^verbatim>\<open>..\<close>. \<^verbatim>\<open>ValueError\<close> from \<^verbatim>\<open>relpath\<close> is caught.
\<close>

definition move_tail :: "os_env \<Rightarrow> string \<Rightarrow> bool \<Rightarrow> string \<Rightarrow> exn + string" where
  "move_tail os relative_root relative_root_enabled absolute_path =
     (let tail = path_basename os absolute_path
      in if relative_root_enabled then
           (case path_relpath os absolute_path relative_root of
              Inl e \<Rightarrow> if isinstance e ValueError then Inr tail else Inl e
            | Inr relative_path \<Rightarrow>
                Inr (if \<not> contains ''..'' relative_path then relative_path else tail))
         else Inr tail)"

definition move_step ::
  "host_env \<Rightarrow> os_env \<Rightarrow> string \<Rightarrow> string \<Rightarrow> bool \<Rightarrow> Item \<Rightarrow> exn + Item" where
  "move_step host os destination relative_root relative_root_enabled item =
     (if status item \<noteq> FOUND then Inr item
      else
        (let absolute_path = expand_string (hou_expand host) (path_raw (path item))
         in case move_tail os relative_root relative_root_enabled absolute_path of
              Inl e \<Rightarrow> Inl e
            | Inr tail \<Rightarrow>
                Inr (set_preview (path_normpath os (path_join os destination tail)) item)))"

definition move_preview ::
  "host_env \<Rightarrow> os_env \<Rightarrow> Item list \<Rightarrow> move_values option \<Rightarrow> exn option \<times> Item list" where
  "move_preview host os items kwargs =
     (let vals = dict_get kwargs
            \<lparr>m_destination = None, m_relative_root = None, m_relative_root_enabled = None\<rparr>;
          destination = dict_get (m_destination vals) [];
          relative_root = dict_get (m_relative_root vals) [];
          relative_root_enabled = dict_get (m_relative_root_enabled vals) False
      in if destination = [] then (None, items)
         else preview_loop (move_step host os destination relative_root relative_root_enabled)
                items)"

section \<open>The relative plugin (plugins/relative.py)\<close>

datatype AnchorMethod = RELATIVE_HIP | RELATIVE_JOB | ABSOLUTE

text \<open>
  The mode is \<open>None\<close> when \<^verbatim>\<open>kwargs\<close> holds none or a value that is no member of the
  enumeration.
\<close>

record relative_values =
  a_mode :: "AnchorMethod option"
  a_parents :: "int option"

text \<open>\<^verbatim>\<open>re.split(r'[\\/]', s)\<close>: the pieces between backslashes and slashes.\<close>

fun split_seps :: "string \<Rightarrow> string list" where
  "split_seps [] = [[]]"
| "split_seps (c # cs) =
     (if c = backslash \<or> c = CHR ''/'' then [] # split_seps cs
      else (case split_seps cs of
              [] \<Rightarrow> [[c]]
            | piece # pieces \<Rightarrow> (c # piece) # pieces))"

definition absolute_step :: "host_env \<Rightarrow> Item \<Rightarrow> exn + Item" where
  "absolute_step host item =
     Inr (set_preview (expand_string (hou_expand host) (path_raw (path item))) item)"

text \<open>
  The loop of the relative modes: \<^verbatim>\<open>ValueError\<close> from \<^verbatim>\<open>relpath\<close> is caught and the
  item skipped; the preview is set when the relative path climbs no more than
  \<open>parents\<close> directories.
\<close>

definition relative_step ::
  "host_env \<Rightarrow> os_env \<Rightarrow> string \<Rightarrow> string \<Rightarrow> int \<Rightarrow> Item \<Rightarrow> exn + Item" where
  "relative_step host os env root_dir parents item =
     (let absolute_path = expand_string (hou_expand host) (path_raw (path item))
      in case path_relpath os absolute_path root_dir of
           Inl e \<Rightarrow> if isinstance e ValueError then Inr item else Inl e
         | Inr relative_path \<Rightarrow>
             (let parts = split_seps relative_path;
                  count = length (filter (\<lambda>part. part = ''..'') parts)
              in if int count \<le> parents
                 then Inr (set_preview (path_join os env relative_path) item)
                 else Inr item))"

definition relative_preview ::
  "host_env \<Rightarrow> os_env \<Rightarrow> Item list \<Rightarrow> relative_values option \<Rightarrow> exn option \<times> Item list" where
  "relative_preview host os items kwargs =
     (let vals = dict_get kwargs \<lparr>a_mode = None, a_parents = None\<rparr>;
          mode = a_mode vals;
          parents = dict_get (a_parents vals) 0
      in if mode = Some ABSOLUTE then preview_loop (absolute_step host) items
         else if mode = Some RELATIVE_HIP then
           preview_loop
             (relative_step host os ''$HIP'' (expand_string (hou_expand host) ''$HIP'') parents)
             items
         else if mode = Some RELATIVE_JOB then
           preview_loop
             (relative_step host os ''$JOB'' (expand_string (hou_expand host) ''$JOB'') parents)
             items
         else (None, items))"

section \<open>The find plugin (plugins/find.py)\<close>

record find_values =
  f_root :: "string option"

text \<open>
  \<open>missing_items\<close> maps a glob pattern to the missing items with that pattern. The items
  are objects that the dictionary shares with the sequence; here the dictionary holds
  their places in the sequence.
\<close>

type_synonym missing_items = "(string \<times> nat list) list"

definition find_filename :: "os_env \<Rightarrow> Item \<Rightarrow> string" where
  "find_filename os item = path_basename os (path_normpath os (path_raw (path item)))"

definition collect_missing :: "os_env \<Rightarrow> Item list \<Rightarrow> missing_items" where
  "collect_missing os items =
     foldl (\<lambda>missing (i, item).
              if status item = MISSING then
                (let pattern = re_sub m_collection (\<lambda>m. ''*'') (find_filename os item)
                 in AList.update pattern (dict_get (map_of missing pattern) [] @ [i]) missing)
              else missing)
       [] (zip [0 ..< length items] items)"

text \<open>The innermost loop: each item of a pattern gets its file name under the root.\<close>

definition found_under :: "os_env \<Rightarrow> string \<Rightarrow> nat list \<Rightarrow> Item list \<Rightarrow> Item list" where
  "found_under os root_dir places items =
     foldl (\<lambda>its i.
              if i < length its
              then its[i := set_preview (path_join os root_dir (find_filename os (its ! i))) (its ! i)]
              else its)
       items places"

text \<open>
  The loop over the patterns, which runs through a copy of the dictionary taken when
  the directory is entered: a pattern that matches one of the files is served and
  deleted. The third component says that no pattern is left, where the source returns.
\<close>

fun find_in_directory ::
  "os_env \<Rightarrow> string \<Rightarrow> string list \<Rightarrow> missing_items \<Rightarrow> missing_items \<Rightarrow> Item list
   \<Rightarrow> missing_items \<times> Item list \<times> bool" where
  "find_in_directory os root_dir files [] missing items = (missing, items, False)"
| "find_in_directory os root_dir files ((file, _) # copy) missing items =
     (if fnmatch_filter os files file \<noteq> [] then
        (let items' = found_under os root_dir (dict_get (map_of missing file) []) items;
             missing' = AList.delete file missing
         in if missing' = [] then (missing', items', True)
            else find_in_directory os root_dir files copy missing' items')
      else find_in_directory os root_dir files copy missing items)"

fun find_walk ::
  "os_env \<Rightarrow> (string \<times> string list \<times> string list) list \<Rightarrow> missing_items \<Rightarrow> Item list
   \<Rightarrow> Item list" where
  "find_walk os [] missing items = items"
| "find_walk os ((root_dir, dirs, files) # tree) missing items =
     (let (missing', items', finished) = find_in_directory os root_dir files missing missing items
      in if finished then items' else find_walk os tree missing' items')"

definition find_preview ::
  "os_env \<Rightarrow> Item list \<Rightarrow> find_values option \<Rightarrow> exn option \<times> Item list" where
  "find_preview os items kwargs =
     (let search_root = dict_get (f_root (dict_get kwargs \<lparr>f_root = None\<rparr>)) []
      in if search_root = [] then (None, items)
         else
           (let missing = collect_missing os items
            in if missing = [] then (None, items)
               else (None, find_walk os (os_walk os search_root) missing items)))"

section \<open>The plugin manager (plugins/manager.py)\<close>

datatype Plugin =
  ReplacePlugin | SetDirectoryPlugin | CopyPlugin | MovePlugin | FindPlugin
  | VersionPlugin | RelativePlugin

text \<open>
  The class attribute \<^verbatim>\<open>name\<close> of each plugin. The module of \<^verbatim>\<open>CopyPlugin\<close> is not
  among the sources, so its name is a parameter.
\<close>

fun plugin_name :: "string \<Rightarrow> Plugin \<Rightarrow> string" where
  "plugin_name copy_name ReplacePlugin = ''replace''"
| "plugin_name copy_name SetDirectoryPlugin = ''set_directory''"
| "plugin_name copy_name CopyPlugin = copy_name"
| "plugin_name copy_name MovePlugin = ''move''"
| "plugin_name copy_name FindPlugin = ''find''"
| "plugin_name copy_name VersionPlugin = ''version''"
| "plugin_name copy_name RelativePlugin = ''relative''"

definition plugins :: "Plugin list" where
  "plugins =
     [ReplacePlugin, SetDirectoryPlugin, CopyPlugin, MovePlugin, FindPlugin,
      VersionPlugin, RelativePlugin]"

text \<open>\<^verbatim>\<open>{plugin.name: plugin for plugin in plugins}\<close>.\<close>

definition plugin_dict :: "string \<Rightarrow> (string \<times> Plugin) list" where
  "plugin_dict copy_name =
     foldl (\<lambda>d plugin. AList.update (plugin_name copy_name plugin) plugin d) [] plugins"

definition get_plugins :: "string \<Rightarrow> Plugin list" where
  "get_plugins copy_name = map snd (plugin_dict copy_name)"

definition get :: "string \<Rightarrow> string \<Rightarrow> Plugin option" where
  "get copy_name plugin = map_of (plugin_dict copy_name) plugin"

section \<open>The state file (storage.py)\<close>

text \<open>
  Python values as \<^verbatim>\<open>json.dump\<close> sees them: finite trees. A finite float is the real
  number it stands for. A dictionary is the list of its items in insertion order.
  \<open>KOther\<close> is a key that is no string, integer, boolean or \<^verbatim>\<open>None\<close> (a tuple, say),
  \<open>PObject\<close> a value of a type the encoder does not know (a set, say). Float keys are
  left out. A container that holds itself is no finite tree: for it \<^verbatim>\<open>json.dump\<close>
  raises \<^verbatim>\<open>ValueError\<close>.
\<close>

datatype pyfloat = Finite real | PosInf | NegInf | NaN

datatype pykey = KStr string | KInt int | KBool bool | KNone | KOther

datatype pyval =
  PNone | PBool bool | PInt int | PFloat pyfloat | PStr string
  | PList "pyval list" | PTuple "pyval list" | PDict "(pykey \<times> pyval) list" | PObject

text \<open>
  A JSON document. A number is an integer or the text of a float; with the defaults of
  \<^verbatim>\<open>json\<close>, \<^verbatim>\<open>NaN\<close>, \<^verbatim>\<open>Infinity\<close> and \<^verbatim>\<open>-Infinity\<close> are written and read as
  numbers too. The text that \<^verbatim>\<open>float.__repr__\<close> writes for a float is read back as that
  float.
\<close>

datatype json =
  JNull | JBool bool | JNum int | JFloat pyfloat | JStr string
  | JArr "json list" | JObj "(string \<times> json) list"

text \<open>
  The interpreter converts between integers and decimal text only up to 4300 digits
  (\<^verbatim>\<open>sys.int_info.default_max_str_digits\<close>) and raises \<^verbatim>\<open>ValueError\<close> beyond.
\<close>

definition max_str_digits :: nat where
  "max_str_digits = 4300"

definition int_fits :: "int \<Rightarrow> bool" where
  "int_fits i = (\<bar>i\<bar> < 10 ^ max_str_digits)"

definition str_int :: "int \<Rightarrow> string" where
  "str_int i = (if i < 0 then CHR ''-'' # str_nat (nat (- i)) else str_nat (nat i))"

text \<open>The first exception of a sequence of results, or all the values.\<close>

fun sequence :: "('e + 'a) list \<Rightarrow> 'e + 'a list" where
  "sequence [] = Inr []"
| "sequence (Inl e # rs) = Inl e"
| "sequence (Inr x # rs) = (case sequence rs of Inl e \<Rightarrow> Inl e | Inr xs \<Rightarrow> Inr (x # xs))"

definition key_text :: "pykey \<Rightarrow> exn + string" where
  "key_text k =
     (case k of
        KStr s \<Rightarrow> Inr s
      | KInt i \<Rightarrow> if int_fits i then Inr (str_int i) else Inl ValueError
      | KBool b \<Rightarrow> Inr (if b then ''true'' else ''false'')
      | KNone \<Rightarrow> Inr ''null''
      | KOther \<Rightarrow> Inl TypeError)"

text \<open>
  The encoder of \<^verbatim>\<open>json.dump(data, file, indent=2)\<close>: keys become strings, tuples become
  arrays. It descends into a container by a call of its own and raises
  \<^verbatim>\<open>RecursionError\<close> when the interpreter allows no further call: the first argument
  says how many containers deep it can go from where it is called.
\<close>

fun encode :: "nat \<Rightarrow> pyval \<Rightarrow> exn + json" where
  "encode n PNone = Inr JNull"
| "encode n (PBool b) = Inr (JBool b)"
| "encode n (PInt i) = (if int_fits i then Inr (JNum i) else Inl ValueError)"
| "encode n (PFloat f) = Inr (JFloat f)"
| "encode n (PStr s) = Inr (JStr s)"
| "encode n (PList xs) =
     (case n of
        0 \<Rightarrow> Inl RecursionError
      | Suc m \<Rightarrow>
          (case sequence (map (encode m) xs) of Inl e \<Rightarrow> Inl e | Inr js \<Rightarrow> Inr (JArr js)))"
| "encode n (PTuple xs) =
     (case n of
        0 \<Rightarrow> Inl RecursionError
      | Suc m \<Rightarrow>
          (case sequence (map (encode m) xs) of Inl e \<Rightarrow> Inl e | Inr js \<Rightarrow> Inr (JArr js)))"
| "encode n (PDict kvs) =
     (case n of
        0 \<Rightarrow> Inl RecursionError
      | Suc m \<Rightarrow>
          (case sequence
                  (map (\<lambda>(k, v). case key_text k of
                                    Inl e \<Rightarrow> Inl e
                                  | Inr s \<Rightarrow>
                                      (case encode m v of Inl e \<Rightarrow> Inl e | Inr j \<Rightarrow> Inr (s, j)))
                       kvs)
           of Inl e \<Rightarrow> Inl e | Inr ms \<Rightarrow> Inr (JObj ms)))"
| "encode n PObject = Inl TypeError"

text \<open>\<^verbatim>\<open>dict(pairs)\<close>: a repeated key keeps its first place and its last value.\<close>

definition dict_of_pairs :: "('k \<times> 'v) list \<Rightarrow> ('k \<times> 'v) list" where
  "dict_of_pairs kvs = foldl (\<lambda>d (k, v). AList.update k v d) [] kvs"

text \<open>
  The decoder of \<^verbatim>\<open>json.load\<close>, which descends into arrays and objects in the same way,
  with a depth of its own.
\<close>

fun decode :: "nat \<Rightarrow> json \<Rightarrow> exn + pyval" where
  "decode n JNull = Inr PNone"
| "decode n (JBool b) = Inr (PBool b)"
| "decode n (JNum i) = (if int_fits i then Inr (PInt i) else Inl ValueError)"
| "decode n (JFloat f) = Inr (PFloat f)"
| "decode n (JStr s) = Inr (PStr s)"
| "decode n (JArr js) =
     (case n of
        0 \<Rightarrow> Inl RecursionError
      | Suc m \<Rightarrow>
          (case sequence (map (decode m) js) of Inl e \<Rightarrow> Inl e | Inr xs \<Rightarrow> Inr (PList xs)))"
| "decode n (JObj ms) =
     (case n of
        0 \<Rightarrow> Inl RecursionError
      | Suc m \<Rightarrow>
          (case sequence
                  (map (\<lambda>(s, j). case decode m j of Inl e \<Rightarrow> Inl e | Inr v \<Rightarrow> Inr (KStr s, v)) ms)
           of Inl e \<Rightarrow> Inl e | Inr kvs \<Rightarrow> Inr (PDict (dict_of_pairs kvs))))"

text \<open>
  What the state file holds: the text of a JSON document, text that is no JSON document
  (an empty or a half-written file among others), or bytes that are no text in the
  encoding of the platform.
\<close>

datatype content = Document json | Malformed | Undecodable

text \<open>
  The file system as \<^verbatim>\<open>Storage\<close> meets it: the state file if it exists, whether its
  directory exists, and whether opening for reading, creating the directory and opening
  for writing succeed.
\<close>

record disk =
  state_file :: "content option"
  state_dir_exists :: bool
  read_ok :: bool
  mkdir_ok :: bool
  write_ok :: bool

text \<open>
  The interpreter at a call: how many containers deep the encoder and the decoder can
  descend before the recursion limit stops them.
\<close>

record interpreter =
  dump_depth :: nat
  load_depth :: nat

text \<open>\<^verbatim>\<open>JSONStorage.read\<close> at the state path.\<close>

definition read :: "interpreter \<Rightarrow> disk \<Rightarrow> exn + pyval" where
  "read py d =
     (case state_file d of
        None \<Rightarrow> Inl OSError
      | Some c \<Rightarrow>
          if \<not> read_ok d then Inl OSError
          else (case c of
                  Undecodable \<Rightarrow> Inl UnicodeDecodeError
                | Malformed \<Rightarrow> Inl JSONDecodeError
                | Document j \<Rightarrow> decode (load_depth py) j))"

text \<open>
  \<^verbatim>\<open>JSONStorage.write\<close> at the state path: the exception raised, if any, and the file
  system afterwards. Opening with mode \<^verbatim>\<open>'w'\<close> empties the file, and an encoder that
  raises leaves it without a complete document.
\<close>

definition storage_write :: "interpreter \<Rightarrow> pyval \<Rightarrow> disk \<Rightarrow> exn option \<times> disk" where
  "storage_write py data d =
     (if \<not> state_dir_exists d \<and> \<not> mkdir_ok d then (Some OSError, d)
      else
        (let d1 = d\<lparr>state_dir_exists := True\<rparr>
         in if \<not> write_ok d1 then (Some OSError, d1)
            else (case encode (dump_depth py) data of
                    Inl e \<Rightarrow> (Some e, d1\<lparr>state_file := Some Malformed\<rparr>)
                  | Inr j \<Rightarrow> (None, d1\<lparr>state_file := Some (Document j)\<rparr>))))"

text \<open>\<^verbatim>\<open>Storage.get_state\<close>: the value returned, or the exception that leaves the call.\<close>

definition get_state :: "interpreter \<Rightarrow> disk \<Rightarrow> exn + pyval" where
  "get_state py d =
     (case read py d of
        Inr state \<Rightarrow> Inr state
      | Inl e \<Rightarrow>
          if isinstance e OSError then Inr (PDict [])
          else if isinstance e JSONDecodeError then Inr (PDict [])
          else Inl e)"

text \<open>\<^verbatim>\<open>Storage.set_state\<close>: the exception that leaves the call, if any, and the file
  system afterwards.\<close>

definition set_state :: "interpreter \<Rightarrow> pyval \<Rightarrow> disk \<Rightarrow> exn option \<times> disk" where
  "set_state py state d =
     (case storage_write py state d of
        (None, d') \<Rightarrow> (None, d')
      | (Some e, d') \<Rightarrow>
          if isinstance e OSError then (None, d')
          else if isinstance e ValueError then (None, d')
          else (Some e, d'))"

section \<open>The manager's preview (ui/manager.py)\<close>

text \<open>
  \<^verbatim>\<open>_preview_items\<close> gives each item a fresh \<^verbatim>\<open>Preview()\<close> and then calls the
  \<^verbatim>\<open>preview\<close> of the chosen plugin. The six plugins whose modules are among the
  sources, each with what it takes from outside and its values in \<^verbatim>\<open>kwargs\<close>:
\<close>

definition reset_previews :: "Item list \<Rightarrow> Item list" where
  "reset_previews items =
     map (\<lambda>item. item\<lparr>preview := \<lparr>preview_raw = [], preview_html = []\<rparr>\<rparr>) items"

datatype 'r preview_call =
  ReplaceCall "'r replace_env" "replace_values option"
  | VersionCall host_env versions_cache "version_values option"
  | SetDirectoryCall os_env "set_directory_values option"
  | MoveCall host_env os_env "move_values option"
  | FindCall os_env "find_values option"
  | RelativeCall host_env os_env "relative_values option"

text \<open>The items after the call, whether it returns or is left by an exception.\<close>

fun items_after :: "'r preview_call \<Rightarrow> Item list \<Rightarrow> Item list" where
  "items_after (ReplaceCall env kwargs) items = snd (replace_preview env items kwargs)"
| "items_after (VersionCall host cache kwargs) items = fst (version_preview host cache items kwargs)"
| "items_after (SetDirectoryCall os kwargs) items = snd (set_directory_preview os items kwargs)"
| "items_after (MoveCall host os kwargs) items = snd (move_preview host os items kwargs)"
| "items_after (FindCall os kwargs) items = snd (find_preview os items kwargs)"
| "items_after (RelativeCall host os kwargs) items = snd (relative_preview host os items kwargs)"

section \<open>Notions of the properties\<close>



text \<open>The names of the six plugins whose modules are among the sources.\<close>

definition six_names :: "string list" where
  "six_names = [''replace'', ''set_directory'', ''move'', ''find'', ''version'', ''relative'']"

text \<open>No preview of the items holds a backslash.\<close>

definition no_backslash :: "Item list \<Rightarrow> bool" where
  "no_backslash items = list_all (\<lambda>item. backslash \<notin> set (preview_raw (preview item))) items"

text \<open>
  The second sequence holds the items of the first, each as it was or after a call of
  \<open>set_preview\<close>.
\<close>

definition previews_set :: "Item list \<Rightarrow> Item list \<Rightarrow> bool" where
  "previews_set items items' =
     list_all2 (\<lambda>item item'. item' = item \<or> (\<exists>p. item' = set_preview p item)) items items'"

text \<open>
  The values that JSON has a form of its own for: \<^verbatim>\<open>None\<close>, booleans, integers within
  the conversion limit, floats other than NaN (which is equal to nothing, itself
  included), strings, lists, and dictionaries whose keys are strings. The keys of a
  Python dictionary are distinct.
\<close>

fun is_str_key :: "pykey \<Rightarrow> bool" where
  "is_str_key (KStr s) = True"
| "is_str_key _ = False"

fun json_native :: "pyval \<Rightarrow> bool" where
  "json_native PNone = True"
| "json_native (PBool b) = True"
| "json_native (PInt i) = int_fits i"
| "json_native (PFloat f) = (f \<noteq> NaN)"
| "json_native (PStr s) = True"
| "json_native (PList xs) = list_all json_native xs"
| "json_native (PTuple xs) = False"
| "json_native (PDict kvs) =
     (distinct (map fst kvs) \<and> list_all (\<lambda>(k, v). is_str_key k \<and> json_native v) kvs)"
| "json_native PObject = False"

text \<open>Python's \<^verbatim>\<open>==\<close> on floats.\<close>

definition float_eq :: "pyfloat \<Rightarrow> pyfloat \<Rightarrow> bool" where
  "float_eq a b = (a \<noteq> NaN \<and> a = b)"

text \<open>The containers of a value are nested at most \<open>n\<close> deep.\<close>

fun nested_within :: "nat \<Rightarrow> pyval \<Rightarrow> bool" where
  "nested_within n (PList xs) =
     (case n of 0 \<Rightarrow> False | Suc m \<Rightarrow> list_all (nested_within m) xs)"
| "nested_within n (PTuple xs) =
     (case n of 0 \<Rightarrow> False | Suc m \<Rightarrow> list_all (nested_within m) xs)"
| "nested_within n (PDict kvs) =
     (case n of 0 \<Rightarrow> False | Suc m \<Rightarrow> list_all (\<lambda>(k, v). nested_within m v) kvs)"
| "nested_within n _ = True"

text \<open>A list in a list and so on, \<open>n\<close> lists in all.\<close>

fun nested_list :: "nat \<Rightarrow> pyval" where
  "nested_list 0 = PNone"
| "nested_list (Suc n) = PList [nested_list n]"








section \<open>A concrete environment\<close>

text \<open>
  The models above take the file system and the libraries as parameters. To evaluate
  them, this section gives one environment: a working directory that holds plain files
  and no subdirectory, and the regular expressions of a small fragment of the syntax of
  \<^verbatim>\<open>re\<close>. On its fragment each function below computes what the library computes; what
  lies outside is rejected (as \<^verbatim>\<open>re.error\<close>, or with the empty list) and is never used
  in an evaluation.
\<close>

subsection \<open>Regular expressions\<close>

text \<open>
  The fragment: ASCII characters that stand for themselves, \<^verbatim>\<open>.\<close>, \<^verbatim>\<open>\d\<close>, an escaped
  special character, groups \<^verbatim>\<open>( )\<close> that are not repeated and are nested less than 16
  deep, and the greedy repetitions \<^verbatim>\<open>*\<close>, \<^verbatim>\<open>+\<close>, \<^verbatim>\<open>?\<close> and \<^verbatim>\<open>{n}\<close> of a single
  character; the whole may be wrapped as \<^verbatim>\<open>(?s:...)\<close>, and it must not match the empty
  string. A pattern is the list of its pieces: what a character has to be, and how often
  at least and at most it is repeated.
\<close>

datatype atom = Lit char | AnyChar | AnyCharNL | Digit

type_synonym piece = "atom \<times> nat \<times> nat option"

record regex =
  ignorecase :: bool
  pieces :: "piece list"

definition special_chars :: string where
  "special_chars = ''.^$*+?{}[]|()'' @ [backslash]"

definition is_ascii :: "char \<Rightarrow> bool" where
  "is_ascii c = ((of_char c :: nat) < 128)"

text \<open>\<^verbatim>\<open>MAXREPEAT\<close>: a repetition count from here on raises \<^verbatim>\<open>OverflowError\<close>.\<close>

definition maxrepeat :: int where
  "maxrepeat = 4294967295"

definition int_of_digits :: "string \<Rightarrow> int" where
  "int_of_digits s = foldl (\<lambda>a c. 10 * a + int (digit_val c)) 0 s"

text \<open>
  A repetition sign behind the pieces read so far: \<^verbatim>\<open>re.error\<close> when there is nothing
  to repeat or the last piece is repeated already.
\<close>

definition requantify :: "bool \<Rightarrow> piece list \<Rightarrow> nat \<Rightarrow> nat option \<Rightarrow> exn + piece list" where
  "requantify q acc least most =
     (case acc of
        [] \<Rightarrow> Inl ReError
      | (a, _, _) # acc' \<Rightarrow> if q then Inr ((a, least, most) # acc') else Inl ReError)"

text \<open>
  \<open>parse_re dotall depth q acc s\<close>: \<open>depth\<close> counts the open groups, \<open>q\<close> says whether a
  repetition may follow, \<open>acc\<close> holds the pieces read so far, the last one first. The
  text is read from the left and the first exception ends it; the count of \<^verbatim>\<open>{n}\<close> is
  converted and compared with \<^verbatim>\<open>MAXREPEAT\<close> before the piece to repeat is looked at.
\<close>

function parse_re :: "bool \<Rightarrow> nat \<Rightarrow> bool \<Rightarrow> piece list \<Rightarrow> string \<Rightarrow> exn + piece list" where
  "parse_re dotall depth q acc [] = (if depth = 0 then Inr (rev acc) else Inl ReError)"
| "parse_re dotall depth q acc (c # cs) =
     (if c = CHR ''('' then
        (if take 1 cs = ''?'' \<or> 15 \<le> depth then Inl ReError
         else parse_re dotall (Suc depth) False acc cs)
      else if c = CHR '')'' then
        (case depth of 0 \<Rightarrow> Inl ReError | Suc d \<Rightarrow> parse_re dotall d False acc cs)
      else if c = CHR ''.'' then
        parse_re dotall depth True ((if dotall then AnyCharNL else AnyChar, 1, Some 1) # acc) cs
      else if c = backslash then
        (case cs of
           [] \<Rightarrow> Inl ReError
         | e # es \<Rightarrow>
             if e = CHR ''d'' then parse_re dotall depth True ((Digit, 1, Some 1) # acc) es
             else if e \<in> set special_chars then
               parse_re dotall depth True ((Lit e, 1, Some 1) # acc) es
             else Inl ReError)
      else if c = CHR ''*'' then
        (case requantify q acc 0 None of
           Inl e \<Rightarrow> Inl e | Inr acc' \<Rightarrow> parse_re dotall depth False acc' cs)
      else if c = CHR ''+'' then
        (case requantify q acc 1 None of
           Inl e \<Rightarrow> Inl e | Inr acc' \<Rightarrow> parse_re dotall depth False acc' cs)
      else if c = CHR ''?'' then
        (case requantify q acc 0 (Some 1) of
           Inl e \<Rightarrow> Inl e | Inr acc' \<Rightarrow> parse_re dotall depth False acc' cs)
      else if c = CHR ''{'' then
        (let ds = takeWhile is_digit cs; rest = dropWhile is_digit cs; n = int_of_digits ds
         in if ds = [] \<or> take 1 rest \<noteq> ''}'' then Inl ReError
            else if max_str_digits < length ds then Inl ValueError
            else if maxrepeat \<le> n then Inl OverflowError
            else (case requantify q acc (nat n) (Some (nat n)) of
                    Inl e \<Rightarrow> Inl e
                  | Inr acc' \<Rightarrow> parse_re dotall depth False acc' (drop 1 rest)))
      else if c \<in> set special_chars \<or> \<not> is_ascii c then Inl ReError
      else parse_re dotall depth True ((Lit c, 1, Some 1) # acc) cs)"
  by pat_completeness auto
termination
  by (relation "measure (\<lambda>(dotall, depth, q, acc, s). length s)")
     (auto simp: less_Suc_eq_le intro: order_trans [OF diff_le_self length_dropWhile_le])

text \<open>\<^verbatim>\<open>re.compile(pattern, flags)\<close> on the fragment.\<close>

definition frag_compile :: "bool \<Rightarrow> string \<Rightarrow> exn + regex" where
  "frag_compile ic s =
     (let parsed =
            (if take 4 s = ''(?s:'' \<and> drop (length s - 1) s = '')''
             then parse_re True 0 False [] (butlast (drop 4 s))
             else parse_re False 0 False [] s)
      in case parsed of
           Inl e \<Rightarrow> Inl e
         | Inr ps \<Rightarrow>
             if list_all (\<lambda>(a, least, most). least = 0) ps then Inl ReError
             else Inr \<lparr>ignorecase = ic, pieces = ps\<rparr>)"

definition lower :: "char \<Rightarrow> char" where
  "lower c =
     (if CHR ''A'' \<le> c \<and> c \<le> CHR ''Z'' then char_of (of_char c + (32 :: nat)) else c)"

fun atom_ok :: "bool \<Rightarrow> atom \<Rightarrow> char \<Rightarrow> bool" where
  "atom_ok ic (Lit l) c = (if ic then lower c = lower l else c = l)"
| "atom_ok ic AnyChar c = (c \<noteq> CHR 0x0A)"
| "atom_ok ic AnyCharNL c = True"
| "atom_ok ic Digit c = is_digit c"

fun first_some :: "'a option list \<Rightarrow> 'a option" where
  "first_some [] = None"
| "first_some (Some x # xs) = Some x"
| "first_some (None # xs) = first_some xs"

text \<open>
  The length of the match at the start of a string, found as the library finds it: each
  repetition takes as many characters as it can and gives them back one by one.
\<close>

fun match_end :: "bool \<Rightarrow> piece list \<Rightarrow> string \<Rightarrow> nat option" where
  "match_end ic [] s = Some 0"
| "match_end ic ((a, least, most) # ps) s =
     (let run = length (takeWhile (atom_ok ic a) s);
          top = (case most of None \<Rightarrow> run | Some m \<Rightarrow> min m run)
      in first_some
           (map (\<lambda>k. map_option (\<lambda>e. k + e) (match_end ic ps (drop k s)))
                (rev [least ..< Suc top])))"


definition is_letter :: "char \<Rightarrow> bool" where
  "is_letter c = ((CHR ''a'' \<le> c \<and> c \<le> CHR ''z'') \<or> (CHR ''A'' \<le> c \<and> c \<le> CHR ''Z''))"

text \<open>
  The replacement template of \<^verbatim>\<open>pattern.sub\<close>, read from the left: a doubled backslash
  stands for one; \<^verbatim>\<open>\g<name>\<close> with a name of letters raises \<^verbatim>\<open>IndexError\<close>, since a
  pattern of the fragment has no named group; the other escapes are outside the fragment
  (many of them raise \<^verbatim>\<open>re.error\<close>).
\<close>

fun expand_template :: "string \<Rightarrow> exn + string" where
  "expand_template [] = Inr []"
| "expand_template [c] = (if c = backslash then Inl ReError else Inr [c])"
| "expand_template (c # e # cs) =
     (if c = backslash then
        (if e = backslash then
           (case expand_template cs of Inl x \<Rightarrow> Inl x | Inr t \<Rightarrow> Inr (backslash # t))
         else if e = CHR ''g'' \<and> take 1 cs = ''<'' then
           (let group_name = takeWhile (\<lambda>d. d \<noteq> CHR ''>'') (drop 1 cs)
            in if group_name \<noteq> [] \<and> list_all is_letter group_name
                  \<and> take 1 (drop (Suc (length group_name)) cs) = ''>''
               then Inl IndexError else Inl ReError)
         else Inl ReError)
      else (case expand_template (e # cs) of Inl x \<Rightarrow> Inl x | Inr t \<Rightarrow> Inr (c # t)))"

definition frag_sub :: "regex \<Rightarrow> string \<Rightarrow> string \<Rightarrow> exn + string" where
  "frag_sub r repl s =
     (case expand_template repl of
        Inl e \<Rightarrow> Inl e
      | Inr t \<Rightarrow> Inr (re_sub (match_end (ignorecase r) (pieces r)) (\<lambda>m. t) s))"

subsection \<open>A flat directory\<close>

text \<open>
  \<^verbatim>\<open>fnmatch\<close> for patterns built from \<^verbatim>\<open>*\<close>, \<^verbatim>\<open>?\<close> and characters that stand for
  themselves, on a file system where names differ by case.
\<close>

fun fnmatch :: "string \<Rightarrow> string \<Rightarrow> bool" where
  "fnmatch [] s = (s = [])"
| "fnmatch (p # ps) s =
     (if p = CHR ''*'' then list_ex (\<lambda>k. fnmatch ps (drop k s)) [0 ..< Suc (length s)]
      else (case s of
              [] \<Rightarrow> False
            | c # cs \<Rightarrow> (p = CHR ''?'' \<or> p = c) \<and> fnmatch ps cs))"

text \<open>
  \<^verbatim>\<open>glob.glob\<close> in a working directory that holds the files \<open>names\<close> and nothing else,
  for patterns without \<^verbatim>\<open>[\<close> and without a directory part. A name that starts with
  a dot is found only by a pattern that starts with a dot.
\<close>

definition ex_glob :: "string list \<Rightarrow> string \<Rightarrow> string list" where
  "ex_glob names pat =
     (if CHR ''['' \<in> set pat \<or> CHR ''/'' \<in> set pat then []
      else filter (\<lambda>f. fnmatch pat f \<and> (if take 1 f = ''.'' then take 1 pat = ''.'' else True))
             names)"


text \<open>A host whose expansion leaves a string without variables as it is.\<close>

definition ex_host_env :: "string list \<Rightarrow> host_env" where
  "ex_host_env names = \<lparr>hou_expand = (\<lambda>s. s), glob_glob = ex_glob names\<rparr>"

subsection \<open>The other library functions of the replace plugin\<close>

text \<open>\<^verbatim>\<open>re.escape\<close> of one character.\<close>

definition re_escape :: "char \<Rightarrow> string" where
  "re_escape c =
     (if c \<in> set (''()[]{}?*+-|^$.&~# '' @ [backslash, CHR 0x09, CHR 0x0A, CHR 0x0D, CHR 0x0B, CHR 0x0C])
      then [backslash, c] else [c])"

text \<open>\<^verbatim>\<open>fnmatch.translate\<close> for patterns without \<^verbatim>\<open>[\<close> and with one \<^verbatim>\<open>*\<close> at most.\<close>

definition ex_translate :: "string \<Rightarrow> string" where
  "ex_translate pat =
     ''(?s:''
     @ concat (map (\<lambda>c. if c = CHR ''*'' then ''.*'' else if c = CHR ''?'' then ''.''
                         else re_escape c) pat)
     @ '')'' @ [backslash] @ ''Z''"

definition hex_digit :: "nat \<Rightarrow> char" where
  "hex_digit n = ''0123456789abcdef'' ! (n mod 16)"

text \<open>\<^verbatim>\<open>s.encode('unicode_escape').decode('ascii')\<close> for code points below 256.\<close>

definition escape_char :: "char \<Rightarrow> string" where
  "escape_char c =
     (if c = backslash then [backslash, backslash]
      else if c = CHR 0x09 then [backslash, CHR ''t'']
      else if c = CHR 0x0A then [backslash, CHR ''n'']
      else if c = CHR 0x0D then [backslash, CHR ''r'']
      else if (of_char c :: nat) < 32 \<or> 127 \<le> (of_char c :: nat)
      then [backslash, CHR ''x'', hex_digit (of_char c div 16), hex_digit (of_char c)]
      else [c])"

definition ex_unicode_escape :: "string \<Rightarrow> string" where
  "ex_unicode_escape s = concat (map escape_char s)"

definition ex_replace_env :: "regex replace_env" where
  "ex_replace_env =
     \<lparr>compile_flags = frag_compile,
      pattern_sub = frag_sub,
      fnmatch_translate = ex_translate,
      unicode_escape = ex_unicode_escape\<rparr>"

subsection \<open>Items and inputs of the evaluations\<close>

text \<open>An item of a file node with the given raw path and status, and no preview yet.\<close>

definition ex_item :: "string \<Rightarrow> Status \<Rightarrow> Item" where
  "ex_item p st =
     \<lparr>parm_name = ''file'', parm_type = FILE, node_path = ''/obj/geo1/file1'',
      node_type = \<lparr>name = ''file'', category = ''Sop''\<rparr>,
      path = \<lparr>path_raw = p, path_expanded = p\<rparr>,
      preview = \<lparr>preview_raw = [], preview_html = []\<rparr>,
      status = st\<rparr>"


text \<open>A file system without failures: nothing stops reading, creating or writing.\<close>

definition ex_disk :: "content option \<Rightarrow> disk" where
  "ex_disk file =
     \<lparr>state_file = file, state_dir_exists = (file \<noteq> None),
      read_ok = True, mkdir_ok = True, write_ok = True\<rparr>"

text \<open>Values of the replace plugin in regex mode with \<^verbatim>\<open>match_case\<close> set.\<close>

definition ex_regex_values :: "string \<Rightarrow> string \<Rightarrow> replace_values option" where
  "ex_regex_values search replace =
     Some \<lparr>r_search = Some search, r_replace = Some replace,
           r_regex = Some True, r_match_case = Some True\<rparr>"


definition ex_items :: "Item list" where
  "ex_items = [ex_item ''a_v1.exr'' FOUND, ex_item ''b.exr'' MISSING]"

text \<open>A directory with three versions of one file, and the values of the version plugin.\<close>

definition ex_version_dir :: "string list" where
  "ex_version_dir = [''a_v10'', ''a_v8'', ''a_v9'']"

definition ex_version_values :: "string \<Rightarrow> version_values option" where
  "ex_version_values mode = Some \<lparr>v_mode = Some mode, v_version = None\<rparr>"

definition ex_versions :: versions where
  "ex_versions = [(10, ''a_v10''), (8, ''a_v8''), (9, ''a_v9'')]"


text \<open>An interpreter that lets the encoder and the decoder descend \<open>n\<close> containers.\<close>

definition ex_interpreter :: "nat \<Rightarrow> interpreter" where
  "ex_interpreter n = \<lparr>dump_depth = n, load_depth = n\<rparr>"

text \<open>
  An item whose raw path is an expression and whose preview, left from earlier, holds a
  backslash.
\<close>

definition ex_stale_item :: Item where
  "ex_stale_item =
     (ex_item ''`chs(file)`'' EXPRESSION)
       \<lparr>preview := \<lparr>preview_raw = ''a'' @ [backslash] @ ''b'', preview_html = []\<rparr>\<rparr>"

section \<open>set_preview and the previews of the plugins\<close>

lemma replace_char_no_old: "old \<noteq> new \<Longrightarrow> old \<notin> set (replace_char old new s)"
  by (auto simp: replace_char_def)

lemma replace_char_Nil_iff: "(replace_char old new s = []) = (s = [])"
  by (simp add: replace_char_def)

lemma set_preview_no_backslash: "backslash \<notin> set (preview_raw (preview (set_preview p item)))"
  by (simp add: set_preview_def replace_char_no_old)

lemma set_preview_twice: "set_preview q (set_preview p item) = set_preview q item"
  by (simp add: set_preview_def)

lemma previews_set_refl: "previews_set items items"
  by (simp add: previews_set_def list_all2_refl)

lemma previews_set_Cons:
  "item' = item \<or> (\<exists>p. item' = set_preview p item) \<Longrightarrow> previews_set items items'
   \<Longrightarrow> previews_set (item # items) (item' # items')"
  by (simp add: previews_set_def)

lemma previews_set_update:
  assumes "previews_set items its"
  shows "previews_set items (its[i := set_preview p (its ! i)])"
proof -
  have len: "length items = length its"
    using assms by (simp add: previews_set_def list_all2_lengthD)
  have "\<And>j. j < length items
          \<Longrightarrow> (its[i := set_preview p (its ! i)]) ! j = items ! j
              \<or> (\<exists>q. (its[i := set_preview p (its ! i)]) ! j = set_preview q (items ! j))"
  proof -
    fix j assume j: "j < length items"
    with assms have old: "its ! j = items ! j \<or> (\<exists>q. its ! j = set_preview q (items ! j))"
      by (simp add: previews_set_def list_all2_conv_all_nth)
    show "(its[i := set_preview p (its ! i)]) ! j = items ! j
          \<or> (\<exists>q. (its[i := set_preview p (its ! i)]) ! j = set_preview q (items ! j))"
    proof (cases "i = j")
      case True
      with j len have "(its[i := set_preview p (its ! i)]) ! j = set_preview p (its ! j)"
        by simp
      with old show ?thesis by (auto simp: set_preview_twice)
    next
      case False
      then have "(its[i := set_preview p (its ! i)]) ! j = its ! j" by simp
      with old show ?thesis by simp
    qed
  qed
  with len show ?thesis
    by (simp add: previews_set_def list_all2_conv_all_nth)
qed

lemma preview_loop_previews_set:
  assumes "\<And>item item'. step item = Inr item'
             \<Longrightarrow> item' = item \<or> (\<exists>p. item' = set_preview p item)"
  shows "previews_set items (snd (preview_loop step items))"
proof (induction items)
  case Nil
  show ?case by (simp add: previews_set_def)
next
  case (Cons item items)
  show ?case
  proof (cases "step item")
    case (Inl e)
    then show ?thesis by (simp add: previews_set_refl)
  next
    case (Inr item')
    from assms [OF Inr] Cons.IH
    have "previews_set (item # items) (item' # snd (preview_loop step items))"
      by (rule previews_set_Cons)
    with Inr show ?thesis by (simp add: split_beta)
  qed
qed

lemma replace_preview_previews_set: "previews_set items (snd (replace_preview env items kwargs))"
proof -
  have "\<And>pattern replace. previews_set items
          (snd (preview_loop (replace_step env pattern replace) items))"
    by (rule preview_loop_previews_set)
       (auto simp: replace_step_def split: sum.splits if_splits)
  then show ?thesis
    by (auto simp: replace_preview_def Let_def previews_set_refl split: sum.splits)
qed

lemma set_directory_preview_previews_set:
  "previews_set items (snd (set_directory_preview os items kwargs))"
proof -
  have "\<And>directory. previews_set items
          (snd (preview_loop (set_directory_step os directory) items))"
    by (rule preview_loop_previews_set)
       (auto simp: set_directory_step_def Let_def split: if_splits)
  then show ?thesis
    by (simp add: set_directory_preview_def Let_def previews_set_refl)
qed

lemma move_preview_previews_set:
  "previews_set items (snd (move_preview host os items kwargs))"
proof -
  have "\<And>destination relative_root enabled. previews_set items
          (snd (preview_loop (move_step host os destination relative_root enabled) items))"
    by (rule preview_loop_previews_set)
       (auto simp: move_step_def Let_def split: if_splits sum.splits)
  then show ?thesis
    by (simp add: move_preview_def Let_def previews_set_refl)
qed

lemma relative_preview_previews_set:
  "previews_set items (snd (relative_preview host os items kwargs))"
proof -
  have absolute: "previews_set items (snd (preview_loop (absolute_step host) items))"
    by (rule preview_loop_previews_set) (auto simp: absolute_step_def)
  have relative: "\<And>env root_dir parents. previews_set items
          (snd (preview_loop (relative_step host os env root_dir parents) items))"
    by (rule preview_loop_previews_set)
       (auto simp: relative_step_def Let_def split: if_splits sum.splits)
  show ?thesis
    by (simp add: relative_preview_def Let_def previews_set_refl absolute relative)
qed

lemma version_preview_loop_previews_set:
  "previews_set items (fst (version_preview_loop host mode version cache items))"
proof (induction items arbitrary: cache)
  case Nil
  show ?case by (simp add: previews_set_def)
next
  case (Cons item items)
  obtain item' cache' where step: "version_preview_item host mode version cache item = (item', cache')"
    by (cases "version_preview_item host mode version cache item")
  then have "item' = item \<or> (\<exists>p. item' = set_preview p item)"
    by (auto simp: version_preview_item_def Let_def split: if_splits prod.splits)
  from this Cons.IH [of cache']
  have "previews_set (item # items)
          (item' # fst (version_preview_loop host mode version cache' items))"
    by (rule previews_set_Cons)
  with step show ?case by (simp add: split_beta)
qed

lemma version_preview_previews_set:
  "previews_set items (fst (version_preview host cache items kwargs))"
  by (simp add: version_preview_def Let_def version_preview_loop_previews_set)

lemma found_under_previews_set:
  "previews_set items its \<Longrightarrow> previews_set items (found_under os root_dir places its)"
proof (induction places arbitrary: its)
  case Nil
  then show ?case by (simp add: found_under_def)
next
  case (Cons i places)
  let ?its = "if i < length its
              then its[i := set_preview (path_join os root_dir (find_filename os (its ! i))) (its ! i)]
              else its"
  from Cons.prems have "previews_set items ?its"
    by (simp add: previews_set_update)
  from Cons.IH [OF this] show ?case
    by (simp add: found_under_def)
qed

lemma find_in_directory_previews_set:
  "previews_set items its
   \<Longrightarrow> previews_set items (fst (snd (find_in_directory os root_dir files copy missing its)))"
proof (induction copy arbitrary: missing its)
  case Nil
  then show ?case by simp
next
  case (Cons entry copy)
  obtain pat places where entry: "entry = (pat, places)" by (cases entry)
  show ?case
  proof (cases "fnmatch_filter os files pat \<noteq> []")
    case True
    let ?its = "found_under os root_dir (dict_get (map_of missing pat) []) its"
    from Cons.prems have served: "previews_set items ?its"
      by (rule found_under_previews_set)
    from Cons.IH [OF served] served True show ?thesis
      by (simp add: entry Let_def)
  next
    case False
    with Cons.IH [OF Cons.prems] show ?thesis
      by (simp add: entry)
  qed
qed

lemma find_walk_previews_set:
  "previews_set items its \<Longrightarrow> previews_set items (find_walk os tree missing its)"
proof (induction tree arbitrary: missing its)
  case Nil
  then show ?case by simp
next
  case (Cons entry tree)
  obtain root_dir dirs files where entry: "entry = (root_dir, dirs, files)" by (cases entry)
  obtain missing' its' finished where
    dir: "find_in_directory os root_dir files missing missing its = (missing', its', finished)"
    by (cases "find_in_directory os root_dir files missing missing its")
  from find_in_directory_previews_set [OF Cons.prems, of os root_dir files missing missing] dir
  have served: "previews_set items its'" by simp
  from Cons.IH [OF served] served dir show ?case
    by (simp add: entry)
qed

lemma find_preview_previews_set: "previews_set items (snd (find_preview os items kwargs))"
  by (simp add: find_preview_def Let_def previews_set_refl find_walk_previews_set)

lemma items_after_previews_set: "previews_set items (items_after call items)"
  by (cases call)
     (simp_all add: replace_preview_previews_set version_preview_previews_set
        set_directory_preview_previews_set move_preview_previews_set
        find_preview_previews_set relative_preview_previews_set)

lemma previews_set_no_backslash:
  assumes "previews_set items items'" and "no_backslash items"
  shows "no_backslash items'"
proof -
  from assms(1) have len: "length items = length items'"
    by (simp add: previews_set_def list_all2_lengthD)
  have "\<And>j. j < length items' \<Longrightarrow> backslash \<notin> set (preview_raw (preview (items' ! j)))"
  proof -
    fix j assume j: "j < length items'"
    with assms(1) len
    have "items' ! j = items ! j \<or> (\<exists>p. items' ! j = set_preview p (items ! j))"
      by (simp add: previews_set_def list_all2_conv_all_nth)
    moreover from assms(2) j len
    have "backslash \<notin> set (preview_raw (preview (items ! j)))"
      by (simp add: no_backslash_def list_all_length)
    ultimately show "backslash \<notin> set (preview_raw (preview (items' ! j)))"
      using set_preview_no_backslash by auto
  qed
  then show ?thesis
    by (simp add: no_backslash_def list_all_length)
qed

lemma no_backslash_reset: "no_backslash (reset_previews items)"
  by (simp add: no_backslash_def reset_previews_def list_all_iff)

text \<open>
  C9, as the claim words it: \<open>preview.raw\<close> becomes empty exactly when the new path equals
  \<open>path.raw\<close>, and it holds no backslash after the preview of a plugin. The first fails
  for the empty path on an item whose raw path is not empty: the preview becomes empty
  although the two differ. The second fails for an item that a plugin passes over (the
  version plugin passes over an expression) and that held a backslash before.
\<close>

theorem set_preview_empty_counterexample:
  "preview_raw (preview (set_preview [] (ex_item ''a.png'' FOUND))) = []
   \<and> [] \<noteq> path_raw (path (ex_item ''a.png'' FOUND))
   \<and> items_after (VersionCall (ex_host_env []) [] None) [ex_stale_item] = [ex_stale_item]
   \<and> backslash \<in> set (preview_raw (preview ex_stale_item))"
proof -
  have "items_after (VersionCall (ex_host_env []) [] None) [ex_stale_item] = [ex_stale_item]"
    by (simp add: version_preview_def version_preview_item_def ex_stale_item_def ex_item_def
        Let_def)
  then show ?thesis
    by (simp add: set_preview_def ex_item_def replace_char_def ex_stale_item_def)
qed

text \<open>
  C9, amended: \<open>set_preview\<close> leaves the parameter, node, path and status fields (and
  \<open>preview.html\<close>) as they are; \<open>preview.raw\<close> becomes empty when the new path equals
  \<open>path.raw\<close> and otherwise the new path with every backslash turned into a slash, so it
  is empty exactly when the new path equals \<open>path.raw\<close> or is empty, and it holds no
  backslash. The preview of each of the six plugins among the sources leaves every item
  as it was or as a call of \<open>set_preview\<close> leaves it, also when an exception ends it;
  so after it no \<open>preview.raw\<close> holds a backslash if none did before, as is the case
  when the manager has reset the previews.
\<close>

theorem set_preview_frame_and_value:
  "parm_name (set_preview p item) = parm_name item
   \<and> parm_type (set_preview p item) = parm_type item
   \<and> node_path (set_preview p item) = node_path item
   \<and> node_type (set_preview p item) = node_type item
   \<and> path (set_preview p item) = path item
   \<and> status (set_preview p item) = status item
   \<and> preview_html (preview (set_preview p item)) = preview_html (preview item)
   \<and> preview_raw (preview (set_preview p item))
       = (if p = path_raw (path item) then [] else replace_char backslash (CHR ''/'') p)
   \<and> (preview_raw (preview (set_preview p item)) = []) = (p = path_raw (path item) \<or> p = [])
   \<and> backslash \<notin> set (preview_raw (preview (set_preview p item)))
   \<and> previews_set items (items_after call items)
   \<and> (no_backslash items \<longrightarrow> no_backslash (items_after call items))
   \<and> no_backslash (items_after call (reset_previews items))"
proof -
  have single: "parm_name (set_preview p item) = parm_name item
   \<and> parm_type (set_preview p item) = parm_type item
   \<and> node_path (set_preview p item) = node_path item
   \<and> node_type (set_preview p item) = node_type item
   \<and> path (set_preview p item) = path item
   \<and> status (set_preview p item) = status item
   \<and> preview_html (preview (set_preview p item)) = preview_html (preview item)
   \<and> preview_raw (preview (set_preview p item))
       = (if p = path_raw (path item) then [] else replace_char backslash (CHR ''/'') p)
   \<and> (preview_raw (preview (set_preview p item)) = []) = (p = path_raw (path item) \<or> p = [])
   \<and> backslash \<notin> set (preview_raw (preview (set_preview p item)))"
    by (simp add: set_preview_def replace_char_no_old replace_char_Nil_iff)
  have after: "previews_set items (items_after call items)"
    by (rule items_after_previews_set)
  have kept: "no_backslash items \<longrightarrow> no_backslash (items_after call items)"
    using previews_set_no_backslash [OF items_after_previews_set] by blast
  have fresh: "no_backslash (items_after call (reset_previews items))"
    using previews_set_no_backslash [OF items_after_previews_set no_backslash_reset] .
  from single after kept fresh show ?thesis by blast
qed

theorem set_preview_frame_and_value_witness:
  "no_backslash ex_items
   \<and> no_backslash
        (items_after (ReplaceCall ex_replace_env (ex_regex_values ''v1'' ''v2'')) ex_items)
   \<and> map (\<lambda>item. preview_raw (preview item))
        (items_after (ReplaceCall ex_replace_env (ex_regex_values ''v1'' ''v2'')) ex_items)
       = [''a_v2.exr'', []]"
proof -
  have h: "no_backslash ex_items"
    by code_simp
  have e: "map (\<lambda>item. preview_raw (preview item))
        (items_after (ReplaceCall ex_replace_env (ex_regex_values ''v1'' ''v2'')) ex_items)
       = [''a_v2.exr'', []]"
    by code_simp
  from h e
    set_preview_frame_and_value [of "[]" "ex_item ''a.png'' FOUND" ex_items
      "ReplaceCall ex_replace_env (ex_regex_values ''v1'' ''v2'')"]
  show ?thesis by blast
qed

section \<open>find_files\<close>








text \<open>
  The second substitution rewrites the text \<^verbatim>\<open>%UDIMd\<close>; a path with the text
  \<^verbatim>\<open>%(UDIM)d\<close> and no other token stays as it is.
\<close>

lemma re_pattern_printf_udim:
  "re_pattern ''tex.%UDIMd.exr'' = ''tex.'' @ udim_group @ ''.exr''
   \<and> re_pattern ''tex.%(UDIM)d.exr'' = ''tex.%(UDIM)d.exr''"
  by code_simp





section \<open>The plugin manager\<close>

lemma plugin_dict_eq:
  "plugin_dict cn =
     AList.update ''relative'' RelativePlugin
       (AList.update ''version'' VersionPlugin
         (AList.update ''find'' FindPlugin
           (AList.update ''move'' MovePlugin
             (AList.update cn CopyPlugin
               [(''replace'', ReplacePlugin), (''set_directory'', SetDirectoryPlugin)]))))"
  by (simp add: plugin_dict_def plugins_def)

lemma get_eq:
  "get cn n =
     (if n = ''relative'' then Some RelativePlugin
      else if n = ''version'' then Some VersionPlugin
      else if n = ''find'' then Some FindPlugin
      else if n = ''move'' then Some MovePlugin
      else if n = cn then Some CopyPlugin
      else if n = ''replace'' then Some ReplacePlugin
      else if n = ''set_directory'' then Some SetDirectoryPlugin
      else None)"
  by (simp add: get_def plugin_dict_eq update_conv')

text \<open>
  C6, as the claim words it: \<open>get\<close> returns a plugin for six names and for no other. The
  manager builds seven plugins; with \<^verbatim>\<open>copy\<close> as the name of the seventh, \<open>get\<close> returns
  a plugin for a name that is none of the six.
\<close>

theorem get_copy_counterexample:
  "length plugins = 7
   \<and> get ''copy'' ''copy'' = Some CopyPlugin
   \<and> ''copy'' \<notin> set six_names"
  by (simp add: get_eq plugins_def six_names_def)

text \<open>
  C6, amended: whatever the name of the copy plugin, \<open>get\<close> returns a plugin exactly for
  the names \<^verbatim>\<open>replace\<close>, \<^verbatim>\<open>set_directory\<close>, \<^verbatim>\<open>move\<close>, \<^verbatim>\<open>find\<close>, \<^verbatim>\<open>version\<close>,
  \<^verbatim>\<open>relative\<close> and the name of the copy plugin, and for that last name it returns a
  plugin always.
\<close>

theorem get_some_iff:
  "(get copy_name n \<noteq> None) = (n \<in> set six_names \<or> n = copy_name)
   \<and> get copy_name copy_name \<noteq> None"
  by (auto simp: get_eq six_names_def)

section \<open>The replace plugin\<close>

lemma preview_loop_all:
  "\<forall>item \<in> set items. \<exists>item'. step item = Inr item'
   \<Longrightarrow> preview_loop step items = (None, map (\<lambda>item. projr (step item)) items)"
  by (induction items) (auto simp: split_beta)











end
